theory Spec2Isabelle
  imports Complex_Main
begin

section \<open>Python values and string primitives\<close>

text \<open>
  A Python \<open>str\<close> is modelled as a \<open>string\<close>, one \<open>char\<close> per code point (code points
  0 to 255).  \<open>isspace\<close> is the whitespace class shared by \<open>str.strip()\<close> and by the
  regular expression class \<open>\s\<close> on \<open>str\<close> patterns: TAB to CR, FS to US, space, NEL and
  NBSP.  \<open>isdigit\<close> is the class \<open>\d\<close>, which below code point 256 is \<open>0\<close> to \<open>9\<close>.
\<close>

definition isspace :: "char \<Rightarrow> bool" where
  "isspace c =
     (let n = (of_char c :: nat)
      in (9 \<le> n \<and> n \<le> 13) \<or> (28 \<le> n \<and> n \<le> 32) \<or> n = 133 \<or> n = 160)"

definition isdigit :: "char \<Rightarrow> bool" where
  "isdigit c = (let n = (of_char c :: nat) in 48 \<le> n \<and> n \<le> 57)"

definition digit_val :: "char \<Rightarrow> nat" where
  "digit_val c = of_char c - 48"

definition digit_char :: "nat \<Rightarrow> char" where
  "digit_char n = ''0123456789'' ! (n mod 10)"

definition lstrip :: "string \<Rightarrow> string" where
  "lstrip s = dropWhile isspace s"

definition rstrip :: "string \<Rightarrow> string" where
  "rstrip s = rev (dropWhile isspace (rev s))"

definition strip :: "string \<Rightarrow> string" where
  "strip s = rstrip (lstrip s)"

definition startswith :: "string \<Rightarrow> string \<Rightarrow> bool" where
  "startswith s p = (take (length p) s = p)"

definition ascii_lower :: "char \<Rightarrow> char" where
  "ascii_lower c =
     (case map_of (zip ''ABCDEFGHIJKLMNOPQRSTUVWXYZ'' ''abcdefghijklmnopqrstuvwxyz'') c of
        Some l \<Rightarrow> l
      | None \<Rightarrow> c)"

text \<open>
  The values \<open>json.loads\<close> produces.  A Python \<open>float\<close> is a finite real number, an
  infinity or NaN; a \<open>dict\<close> is an association list in which the first binding of a key
  is the one \<open>dict.get\<close> sees.
\<close>

datatype pyfloat = Finite real | PosInf | NegInf | NaN

datatype json =
    JNull
  | JBool bool
  | JInt int
  | JFloat pyfloat
  | JStr string
  | JList "json list"
  | JDict "(string \<times> json) list"

text \<open>Python truthiness: what \<open>not x\<close> and \<open>x or y\<close> test.\<close>

fun truthy :: "json \<Rightarrow> bool" where
  "truthy JNull = False"
| "truthy (JBool b) = b"
| "truthy (JInt i) = (i \<noteq> 0)"
| "truthy (JFloat f) = (f \<noteq> Finite 0)"
| "truthy (JStr s) = (s \<noteq> [])"
| "truthy (JList xs) = (xs \<noteq> [])"
| "truthy (JDict kvs) = (kvs \<noteq> [])"

definition py_or :: "json \<Rightarrow> json \<Rightarrow> json" where
  "py_or a b = (if truthy a then a else b)"

text \<open>\<open>d.get(k)\<close>: the value bound to \<open>k\<close>, or \<open>None\<close>.\<close>

definition dict_get :: "(string \<times> json) list \<Rightarrow> string \<Rightarrow> json" where
  "dict_get d k = (case map_of d k of None \<Rightarrow> JNull | Some v \<Rightarrow> v)"

text \<open>
  \<open>str(x)\<close>: the string itself for a \<open>str\<close>; for every other value the text is produced
  by the interpreter (\<open>repr\<close> of numbers, lists and dicts), which is a parameter here.
\<close>

definition py_str :: "(json \<Rightarrow> string) \<Rightarrow> json \<Rightarrow> string" where
  "py_str repr v = (case v of JStr s \<Rightarrow> s | _ \<Rightarrow> repr v)"


section \<open>Calendar dates, \<open>strftime\<close> and \<open>strptime\<close>\<close>

text \<open>
  A \<open>datetime\<close> is used by the program only through its date: (year, month, day).
  \<open>datetime\<close> accepts the years 1 to 9999 and the days that exist in the month.
\<close>

type_synonym date = "nat \<times> nat \<times> nat"

definition is_leap :: "nat \<Rightarrow> bool" where
  "is_leap y = (y mod 4 = 0 \<and> (y mod 100 \<noteq> 0 \<or> y mod 400 = 0))"

definition days_in_month :: "nat \<Rightarrow> nat \<Rightarrow> nat" where
  "days_in_month y m =
     (if m = 2 then (if is_leap y then 29 else 28)
      else if m = 4 \<or> m = 6 \<or> m = 9 \<or> m = 11 then 30 else 31)"

fun valid_date :: "date \<Rightarrow> bool" where
  "valid_date (y, m, d) =
     (1 \<le> y \<and> y \<le> 9999 \<and> 1 \<le> m \<and> m \<le> 12 \<and> 1 \<le> d \<and> d \<le> days_in_month y m)"

definition zpad2 :: "nat \<Rightarrow> string" where
  "zpad2 n = [digit_char (n div 10), digit_char n]"

definition zpad4 :: "nat \<Rightarrow> string" where
  "zpad4 n = [digit_char (n div 1000), digit_char (n div 100), digit_char (n div 10), digit_char n]"

text \<open>\<open>dt.strftime("%Y-%m-%d")\<close>: year in four digits, month and day in two, zero-filled.\<close>

fun strftime :: "date \<Rightarrow> string" where
  "strftime (y, m, d) = zpad4 y @ ''-'' @ zpad2 m @ ''-'' @ zpad2 d"

text \<open>
  \<open>datetime.strptime\<close> turns a format into a regular expression, one group per directive,
  matches it at the start of the text with backtracking, and rejects the text when
  characters remain after the match or when the fields are not a date.  The directives
  the program uses:
  \<^item> \<open>%Y\<close> is \<open>\d\d\d\d\<close>;
  \<^item> \<open>%m\<close> is \<open>1[0-2]|0[1-9]|[1-9]\<close>;
  \<^item> \<open>%d\<close> is \<open>3[0-1]|[1-2]\d|0[1-9]|[1-9]| [1-9]\<close>;
  \<^item> \<open>%B\<close> and \<open>%b\<close> are the alternatives of the full and of the abbreviated month
    names (longest first), compared without regard to case;
  \<^item> a blank in the format is \<open>\s+\<close>; any other character stands for itself.
\<close>

datatype directive = DirY | Dirm | Dird | DirB | Dirb | Blank | Lit char

definition month_names :: "(string \<times> nat) list" where
  "month_names =
     [(''september'', 9), (''february'', 2), (''november'', 11), (''december'', 12),
      (''january'', 1), (''october'', 10), (''august'', 8), (''march'', 3), (''april'', 4),
      (''june'', 6), (''july'', 7), (''may'', 5)]"

definition month_abbrs :: "(string \<times> nat) list" where
  "month_abbrs =
     [(''jan'', 1), (''feb'', 2), (''mar'', 3), (''apr'', 4), (''may'', 5), (''jun'', 6),
      (''jul'', 7), (''aug'', 8), (''sep'', 9), (''oct'', 10), (''nov'', 11), (''dec'', 12)]"

text \<open>
  Every way one directive can match at the start of \<open>s\<close>, in the order the regular
  expression engine tries them: the value read and the text left.
\<close>

definition name_alts :: "(string \<times> nat) list \<Rightarrow> string \<Rightarrow> (nat \<times> string) list" where
  "name_alts names s =
     concat (map (\<lambda>(name, k).
       if map ascii_lower (take (length name) s) = name then [(k, drop (length name) s)] else [])
       names)"

fun alts :: "directive \<Rightarrow> string \<Rightarrow> (nat \<times> string) list" where
  "alts DirY s =
     (case s of
        a # b # c # d # r \<Rightarrow>
          if isdigit a \<and> isdigit b \<and> isdigit c \<and> isdigit d
          then [(1000 * digit_val a + 100 * digit_val b + 10 * digit_val c + digit_val d, r)]
          else []
      | _ \<Rightarrow> [])"
| "alts Dirm s =
     (case s of
        a # b # r \<Rightarrow>
          (if a = CHR ''1'' \<and> (b = CHR ''0'' \<or> b = CHR ''1'' \<or> b = CHR ''2'')
           then [(10 + digit_val b, r)] else []) @
          (if a = CHR ''0'' \<and> isdigit b \<and> b \<noteq> CHR ''0'' then [(digit_val b, r)] else []) @
          (if isdigit a \<and> a \<noteq> CHR ''0'' then [(digit_val a, b # r)] else [])
      | [a] \<Rightarrow> (if isdigit a \<and> a \<noteq> CHR ''0'' then [(digit_val a, [])] else [])
      | [] \<Rightarrow> [])"
| "alts Dird s =
     (case s of
        a # b # r \<Rightarrow>
          (if a = CHR ''3'' \<and> (b = CHR ''0'' \<or> b = CHR ''1'') then [(30 + digit_val b, r)] else []) @
          (if (a = CHR ''1'' \<or> a = CHR ''2'') \<and> isdigit b
           then [(10 * digit_val a + digit_val b, r)] else []) @
          (if a = CHR ''0'' \<and> isdigit b \<and> b \<noteq> CHR ''0'' then [(digit_val b, r)] else []) @
          (if isdigit a \<and> a \<noteq> CHR ''0'' then [(digit_val a, b # r)] else []) @
          (if a = CHR '' '' \<and> isdigit b \<and> b \<noteq> CHR ''0'' then [(digit_val b, r)] else [])
      | [a] \<Rightarrow> (if isdigit a \<and> a \<noteq> CHR ''0'' then [(digit_val a, [])] else [])
      | [] \<Rightarrow> [])"
| "alts DirB s = name_alts month_names s"
| "alts Dirb s = name_alts month_abbrs s"
| "alts Blank s =
     map (\<lambda>k. (0, drop k s)) (rev [1 ..< Suc (length (takeWhile isspace s))])"
| "alts (Lit c) s = (case s of x # r \<Rightarrow> if x = c then [(0, r)] else [] | [] \<Rightarrow> [])"

fun store :: "directive \<Rightarrow> nat \<Rightarrow> date \<Rightarrow> date" where
  "store DirY v (y, m, d) = (v, m, d)"
| "store Dirm v (y, m, d) = (y, v, d)"
| "store Dird v (y, m, d) = (y, m, v)"
| "store DirB v (y, m, d) = (y, v, d)"
| "store Dirb v (y, m, d) = (y, v, d)"
| "store Blank v dt = dt"
| "store (Lit c) v dt = dt"

text \<open>All matches of a format at the start of a text, the engine's first choice first.\<close>

fun re_matches :: "directive list \<Rightarrow> date \<Rightarrow> string \<Rightarrow> (date \<times> string) list" where
  "re_matches [] acc s = [(acc, s)]"
| "re_matches (d # ds) acc s =
     concat (map (\<lambda>(v, r). re_matches ds (store d v acc) r) (alts d s))"

text \<open>
  \<open>datetime.strptime(s, fmt)\<close>; \<open>None\<close> stands for the \<open>ValueError\<close> it raises.  Fields a
  format does not set default to 1900-01-01.
\<close>

definition strptime :: "string \<Rightarrow> directive list \<Rightarrow> date option" where
  "strptime s fmt =
     (case re_matches fmt (1900, 1, 1) s of
        [] \<Rightarrow> None
      | (dt, rest) # _ \<Rightarrow> if rest \<noteq> [] then None else if valid_date dt then Some dt else None)"


section \<open>The Date Normalizer: \<open>parse_event_date\<close>\<close>

text \<open>
  \<open>re.match(r"^\d{4}-\d{2}-\d{2}$", s)\<close>: ten characters, digits around two hyphens;
  \<open>$\<close> also matches before a newline that ends the text.
\<close>

definition canonical :: "string \<Rightarrow> bool" where
  "canonical s =
     (case s of
        [a, b, c, d, h1, e, f, h2, g, h] \<Rightarrow>
          isdigit a \<and> isdigit b \<and> isdigit c \<and> isdigit d \<and> h1 = CHR ''-'' \<and>
          isdigit e \<and> isdigit f \<and> h2 = CHR ''-'' \<and> isdigit g \<and> isdigit h
      | _ \<Rightarrow> False)"

definition match_canonical :: "string \<Rightarrow> bool" where
  "match_canonical s = (canonical s \<or> (canonical (take 10 s) \<and> drop 10 s = ''\<newline>''))"

text \<open>
  The formats of the loop, in its order:
  \<open>"%Y-%m-%d"\<close>, \<open>"%m/%d/%Y"\<close>, \<open>"%B %d, %Y"\<close>, \<open>"%b %d, %Y"\<close>, \<open>"%d %B %Y"\<close>.
\<close>

definition formats :: "directive list list" where
  "formats =
     [[DirY, Lit (CHR ''-''), Dirm, Lit (CHR ''-''), Dird],
      [Dirm, Lit (CHR ''/''), Dird, Lit (CHR ''/''), DirY],
      [DirB, Blank, Dird, Lit (CHR '',''), Blank, DirY],
      [Dirb, Blank, Dird, Lit (CHR '',''), Blank, DirY],
      [Dird, Blank, DirB, Blank, DirY]]"

text \<open>The loop over the formats: the first one that parses decides.\<close>

fun try_formats :: "string \<Rightarrow> directive list list \<Rightarrow> date option" where
  "try_formats s [] = None"
| "try_formats s (fmt # fmts) =
     (case strptime s fmt of Some dt \<Rightarrow> Some dt | None \<Rightarrow> try_formats s fmts)"

text \<open>
  \<open>parse_event_date(date_str)\<close>.  The argument is whatever the model's event carried, so
  it is a JSON value; \<open>now\<close> is the date of \<open>datetime.now()\<close>.
\<close>

definition parse_event_date :: "(json \<Rightarrow> string) \<Rightarrow> date \<Rightarrow> json \<Rightarrow> string" where
  "parse_event_date repr now date_str =
     (if \<not> truthy date_str then strftime now
      else if match_canonical (strip (py_str repr date_str)) then strip (py_str repr date_str)
      else (case try_formats (strip (py_str repr date_str)) formats of
              Some dt \<Rightarrow> strftime dt
            | None \<Rightarrow> strftime now))"


section \<open>Exceptions, external services and the call log\<close>

text \<open>
  The exceptions the handlers tell apart.  \<open>ValueError\<close> stands for the class and its
  subclasses, \<open>RequestException\<close> for \<open>requests.RequestException\<close> and its subclasses,
  \<open>OtherError\<close> for any other class, with its name.  \<open>HTTPException\<close> is the framework's
  error response: status code and detail.
\<close>

datatype pyexn =
    ValueError string
  | AttributeError string
  | RequestException string
  | OtherError string string

fun exn_str :: "pyexn \<Rightarrow> string" where
  "exn_str (ValueError m) = m"
| "exn_str (AttributeError m) = m"
| "exn_str (RequestException m) = m"
| "exn_str (OtherError c m) = m"

fun exn_type_name :: "pyexn \<Rightarrow> string" where
  "exn_type_name (ValueError m) = ''ValueError''"
| "exn_type_name (AttributeError m) = ''AttributeError''"
| "exn_type_name (RequestException m) = ''RequestException''"
| "exn_type_name (OtherError c m) = c"

datatype failure = HTTPException nat string | Uncaught pyexn

fun py_type_name :: "json \<Rightarrow> string" where
  "py_type_name JNull = ''NoneType''"
| "py_type_name (JBool b) = ''bool''"
| "py_type_name (JInt i) = ''int''"
| "py_type_name (JFloat f) = ''float''"
| "py_type_name (JStr s) = ''str''"
| "py_type_name (JList xs) = ''list''"
| "py_type_name (JDict kvs) = ''dict''"

text \<open>The \<open>AttributeError\<close> of \<open>x.attr\<close> on a value that has no such attribute.\<close>

definition no_attribute :: "json \<Rightarrow> string \<Rightarrow> pyexn" where
  "no_attribute v attr =
     AttributeError ([CHR 0x27] @ py_type_name v @ [CHR 0x27] @ '' object has no attribute '' @
                     [CHR 0x27] @ attr @ [CHR 0x27])"

record ProcessSyllabusRequest =
  file_url :: string
  user_id :: "string option"
  source_filename :: "string option"
  course_name :: "string option"

record DeleteClassRequest =
  del_user_id :: string
  del_course_name :: string

text \<open>One row of the table \<open>events\<close>, as the handler builds it.\<close>

record EventRow =
  row_user_id :: "string option"
  row_source_filename :: string
  source_url :: string
  row_course_name :: string
  event_date :: string
  event_title :: json
  event_description :: "string option"

record ProcessSyllabusResponse =
  events :: "EventRow list"
  count :: nat
  resp_course_name :: string

text \<open>
  What lies outside the program: the HTTP client, the PDF library, the model service, the
  JSON decoder, the interpreter's \<open>str\<close> of a non-string, the clock, the configuration
  read from the environment, and the database client.  Each call either raises or returns.
  \<^item> \<open>http_get url\<close>: \<open>requests.get(url, timeout=30)\<close>, \<open>raise_for_status()\<close>, \<open>.content\<close>;
  \<^item> \<open>pdf_pages bytes\<close>: the text of each page of \<open>PdfReader(io.BytesIO(bytes))\<close>;
  \<^item> \<open>generate_content prompt\<close>: \<open>gemini_model.generate_content(prompt).text\<close>;
  \<^item> \<open>json_loads text\<close>: \<open>json.loads(text)\<close>, \<open>Inl\<close> carrying \<open>str\<close> of the
    \<open>JSONDecodeError\<close>;
  \<^item> \<open>create_client url key\<close>, \<open>db_insert rows\<close>, \<open>db_delete user course\<close>: the database
    client, the last two being \<open>.execute()\<close> of the insert and of the delete on \<open>events\<close>.
\<close>

record services =
  http_get :: "string \<Rightarrow> pyexn + string"
  pdf_pages :: "string \<Rightarrow> pyexn + string list"
  generate_content :: "string \<Rightarrow> pyexn + string option"
  json_loads :: "string \<Rightarrow> string + json"
  py_repr :: "json \<Rightarrow> string"
  now :: date
  SUPABASE_URL :: string
  SUPABASE_SERVICE_KEY :: string
  create_client :: "string \<Rightarrow> string \<Rightarrow> pyexn + unit"
  db_insert :: "EventRow list \<Rightarrow> pyexn + unit"
  db_delete :: "string \<Rightarrow> string \<Rightarrow> pyexn + unit"

text \<open>
  The calls that leave the process, in the order they are made, and the module's one
  global: whether \<open>_supabase\<close> holds a client yet.
\<close>

datatype call =
    Fetch string
  | ReadPdf string
  | Generate string
  | CreateClient
  | Insert "EventRow list"
  | Delete string string

record state =
  supabase :: bool
  calls :: "call list"

definition log :: "call \<Rightarrow> state \<Rightarrow> state" where
  "log c st = st\<lparr>calls := calls st @ [c]\<rparr>"


fun is_model_call :: "call \<Rightarrow> bool" where
  "is_model_call (Generate p) = True"
| "is_model_call other = False"


section \<open>The Persistence Gateway: \<open>get_supabase\<close>\<close>

definition get_supabase :: "services \<Rightarrow> state \<Rightarrow> (pyexn + unit) \<times> state" where
  "get_supabase sv st =
     (if \<not> supabase st then
        if SUPABASE_URL sv = [] \<or> SUPABASE_SERVICE_KEY sv = [] then
          (Inl (ValueError
             (''Missing SUPABASE_URL or SUPABASE_SERVICE_ROLE_KEY in .env. '' @
              ''Copy .env.example to .env and fill in your Supabase project values.'')), st)
        else
          (case create_client sv (SUPABASE_URL sv) (SUPABASE_SERVICE_KEY sv) of
             Inl e \<Rightarrow> (Inl e, log CreateClient st)
           | Inr u \<Rightarrow> (Inr (), (log CreateClient st)\<lparr>supabase := True\<rparr>))
      else (Inr (), st))"


section \<open>The Text Extractor: \<open>extract_text_from_pdf_bytes\<close>\<close>

definition extract_text_from_pdf_bytes :: "services \<Rightarrow> string \<Rightarrow> pyexn + string" where
  "extract_text_from_pdf_bytes sv pdf_bytes =
     (case pdf_pages sv pdf_bytes of
        Inl e \<Rightarrow> Inl e
      | Inr pages \<Rightarrow> Inr (strip (concat (map (\<lambda>page. page @ ''\<newline>'') pages))))"


section \<open>The Event Extraction Client: \<open>extract_course_and_events_with_gemini\<close>\<close>

text \<open>
  \<open>re.sub(r"^```(?:json)?\s*", "", raw)\<close>, applied to a text that starts with the fence:
  the fence goes, then \<open>json\<close> if it follows, then the whitespace after it.
\<close>

definition sub_leading_fence :: "string \<Rightarrow> string" where
  "sub_leading_fence raw =
     (let r = drop 3 raw;
          r = (if startswith r ''json'' then drop 4 r else r)
      in dropWhile isspace r)"

text \<open>
  \<open>re.sub(r"\s*```\s*$", "", raw)\<close>.  The pattern matches at a position when what is left
  from there is whitespace, the fence, whitespace, and the end of the text; the leftmost
  such position is replaced, together with everything after it.
\<close>

definition fence_to_end :: "string \<Rightarrow> bool" where
  "fence_to_end s =
     (let r = dropWhile isspace s in startswith r ''```'' \<and> dropWhile isspace (drop 3 r) = [])"

fun sub_trailing_fence :: "string \<Rightarrow> string" where
  "sub_trailing_fence [] = []"
| "sub_trailing_fence (c # cs) =
     (if fence_to_end (c # cs) then [] else c # sub_trailing_fence cs)"

text \<open>The text handed to the decoder: the reply, trimmed, without its fences.\<close>

definition clean_reply :: "string option \<Rightarrow> string" where
  "clean_reply text =
     (let raw = strip (case text of None \<Rightarrow> [] | Some t \<Rightarrow> t)
      in if startswith raw ''```'' then sub_trailing_fence (sub_leading_fence raw) else raw)"

text \<open>The instruction template around the syllabus text.\<close>

definition prompt :: "string \<Rightarrow> string" where
  \<open>prompt syllabus_text =
     ''\<newline>From the syllabus below, extract:\<newline>'' @
     ''1) The course name or code (e.g. "CPE 380", "BIO 101", "CS 161"). '' @
     ''Put it in a field called "course".\<newline>'' @
     ''2) All assignments, exams, and important dates as a list called "events".\<newline>'' @
     ''\<newline>Return ONLY a single JSON object with this shape:\<newline>'' @
     ''{ "course": "Course Name or Code", "events": [ { "title": "...", '' @
     ''"date": "YYYY-MM-DD", "type": "Assignment|Exam|Quiz|Project|..." } ] }\<newline>'' @
     ''\<newline>Use the date format YYYY-MM-DD for each event when possible.\<newline>'' @
     ''\<newline>Syllabus Text:\<newline>'' @ syllabus_text @ ''\<newline>''\<close>

text \<open>
  The shapes accepted once the reply is decoded: a list, an object, anything else.
  \<open>(data.get("course") or "").strip()\<close> needs a string: on any other truthy value the
  attribute lookup raises.
\<close>

definition shape_reply :: "json \<Rightarrow> pyexn + (string option \<times> json list)" where
  "shape_reply data =
     (case data of
        JList xs \<Rightarrow> Inr (None, xs)
      | JDict d \<Rightarrow>
          (case py_or (dict_get d ''course'') (JStr []) of
             JStr c \<Rightarrow>
               Inr (if strip c = [] then None else Some (strip c),
                    case dict_get d ''events'' of
                      JNull \<Rightarrow> []
                    | JList evs \<Rightarrow> evs
                    | JDict ev \<Rightarrow> [JDict ev]
                    | _ \<Rightarrow> [])
           | v \<Rightarrow> Inl (no_attribute v ''strip''))
      | _ \<Rightarrow> Inr (None, []))"

text \<open>
  What the function does with the reply once it has it: strip the fences, decode, and
  accept one of the shapes.
\<close>

definition parse_reply :: "services \<Rightarrow> string option \<Rightarrow> pyexn + (string option \<times> json list)" where
  "parse_reply sv text =
     (case json_loads sv (clean_reply text) of
        Inl e \<Rightarrow>
          Inl (ValueError (''Gemini did not return valid JSON: '' @ e @ ''\<newline>Raw: '' @
                 take 500 (clean_reply text)))
      | Inr data \<Rightarrow> shape_reply data)"

definition extract_course_and_events_with_gemini ::
  "services \<Rightarrow> string \<Rightarrow> state \<Rightarrow> (pyexn + (string option \<times> json list)) \<times> state" where
  "extract_course_and_events_with_gemini sv syllabus_text st =
     (case generate_content sv (prompt syllabus_text) of
        Inl e \<Rightarrow> (Inl e, log (Generate (prompt syllabus_text)) st)
      | Inr text \<Rightarrow> (parse_reply sv text, log (Generate (prompt syllabus_text)) st))"


section \<open>The Request Handler\<close>

text \<open>The loop that maps the model's events to rows; \<open>ev.get\<close> needs a dict.\<close>

definition make_row ::
  "services \<Rightarrow> string option \<Rightarrow> string \<Rightarrow> string \<Rightarrow> string \<Rightarrow> (string \<times> json) list \<Rightarrow> EventRow" where
  "make_row sv uid fname url cname ev =
     (let title = py_or (dict_get ev ''title'') (JStr ''Untitled'');
          date_str = py_or (dict_get ev ''date'') (JStr []);
          event_type = py_or (dict_get ev ''type'') (JStr [])
      in \<lparr>row_user_id = uid,
          row_source_filename = fname,
          source_url = url,
          row_course_name = cname,
          event_date = parse_event_date (py_repr sv) (now sv) date_str,
          event_title = title,
          event_description =
            (if truthy event_type then Some (''Type: '' @ py_str (py_repr sv) event_type)
             else None)\<rparr>)"

fun make_rows ::
  "services \<Rightarrow> string option \<Rightarrow> string \<Rightarrow> string \<Rightarrow> string \<Rightarrow> json list \<Rightarrow> pyexn + EventRow list" where
  "make_rows sv uid fname url cname [] = Inr []"
| "make_rows sv uid fname url cname (ev # evs) =
     (case ev of
        JDict d \<Rightarrow>
          (case make_rows sv uid fname url cname evs of
             Inl e \<Rightarrow> Inl e
           | Inr rows \<Rightarrow> Inr (make_row sv uid fname url cname d # rows))
      | v \<Rightarrow> Inl (no_attribute v ''get''))"

definition insert_rows :: "services \<Rightarrow> EventRow list \<Rightarrow> state \<Rightarrow> (failure + unit) \<times> state" where
  "insert_rows sv rows st =
     (case get_supabase sv st of
        (Inl e, st1) \<Rightarrow>
          (Inl (HTTPException 500 (''Could not save events to database: '' @ exn_str e)), st1)
      | (Inr u, st1) \<Rightarrow>
          (case db_insert sv rows of
             Inl e \<Rightarrow>
               (Inl (HTTPException 500 (''Could not save events to database: '' @ exn_str e)),
                log (Insert rows) st1)
           | Inr u \<Rightarrow> (Inr (), log (Insert rows) st1)))"

definition process_syllabus_impl ::
  "services \<Rightarrow> ProcessSyllabusRequest \<Rightarrow> state \<Rightarrow> (failure + ProcessSyllabusResponse) \<times> state" where
  "process_syllabus_impl sv body st =
     (let url = strip (file_url body);
          uid = (case user_id body of
                   None \<Rightarrow> None
                 | Some u \<Rightarrow> if u = [] then None else Some (strip u));
          fname = strip (case source_filename body of
                           None \<Rightarrow> ''syllabus.pdf''
                         | Some f \<Rightarrow> if f = [] then ''syllabus.pdf'' else f);
          course_override = strip (case course_name body of None \<Rightarrow> [] | Some c \<Rightarrow> c);
          st1 = log (Fetch url) st
      in case http_get sv url of
           Inl (RequestException m) \<Rightarrow>
             (Inl (HTTPException 400 (''Could not download PDF: '' @ m)), st1)
         | Inl e \<Rightarrow> (Inl (Uncaught e), st1)
         | Inr pdf_bytes \<Rightarrow>
             if length pdf_bytes = 0 then (Inl (HTTPException 400 ''PDF file is empty''), st1)
             else
               (let st2 = log (ReadPdf pdf_bytes) st1
                in case extract_text_from_pdf_bytes sv pdf_bytes of
                     Inl e \<Rightarrow> (Inl (HTTPException 400 (''Could not read PDF: '' @ exn_str e)), st2)
                   | Inr text \<Rightarrow>
                       if text = [] then
                         (Inl (HTTPException 400 ''No text could be extracted from the PDF''), st2)
                       else
                         (case extract_course_and_events_with_gemini sv text st2 of
                            (Inl (ValueError m), st3) \<Rightarrow> (Inl (HTTPException 502 m), st3)
                          | (Inl e, st3) \<Rightarrow> (Inl (Uncaught e), st3)
                          | (Inr (course_from_ai, events_from_ai), st3) \<Rightarrow>
                              (let cname =
                                     (if course_override \<noteq> [] then course_override
                                      else case course_from_ai of
                                             Some c \<Rightarrow> c
                                           | None \<Rightarrow> ''Unnamed course'')
                               in case make_rows sv uid fname url cname events_from_ai of
                                    Inl e \<Rightarrow> (Inl (Uncaught e), st3)
                                  | Inr rows \<Rightarrow>
                                      if rows \<noteq> [] then
                                        (case insert_rows sv rows st3 of
                                           (Inl f, st4) \<Rightarrow> (Inl f, st4)
                                         | (Inr u, st4) \<Rightarrow>
                                             (Inr \<lparr>events = rows, count = length rows,
                                                   resp_course_name = cname\<rparr>, st4))
                                      else
                                        (Inr \<lparr>events = rows, count = length rows,
                                              resp_course_name = cname\<rparr>, st3)))))"

text \<open>
  The endpoint \<open>/process-syllabus\<close>: an \<open>HTTPException\<close> passes, any other exception
  becomes the status 500.
\<close>

definition process_syllabus ::
  "services \<Rightarrow> ProcessSyllabusRequest \<Rightarrow> state \<Rightarrow> (failure + ProcessSyllabusResponse) \<times> state" where
  "process_syllabus sv body st =
     (case process_syllabus_impl sv body st of
        (Inl (Uncaught e), st') \<Rightarrow>
          (Inl (HTTPException 500
                  (''Server error: '' @ exn_type_name e @ '': '' @ exn_str e)), st')
      | other \<Rightarrow> other)"

text \<open>
  The course name of a request as the specification words it: the caller's override after
  trimming when that is not empty, else the course the model gave, else the placeholder.
\<close>

definition resolved_course :: "ProcessSyllabusRequest \<Rightarrow> string option \<Rightarrow> string" where
  "resolved_course body course_from_ai =
     (if strip (case course_name body of None \<Rightarrow> [] | Some c \<Rightarrow> c) \<noteq> []
      then strip (case course_name body of None \<Rightarrow> [] | Some c \<Rightarrow> c)
      else case course_from_ai of Some c \<Rightarrow> c | None \<Rightarrow> ''Unnamed course'')"

text \<open>The endpoint \<open>/delete-class\<close>; its answer is the object with \<open>status\<close> \<open>ok\<close>.\<close>

record DeleteClassResponse =
  status :: string

definition delete_class ::
  "services \<Rightarrow> DeleteClassRequest \<Rightarrow> state \<Rightarrow> (failure + DeleteClassResponse) \<times> state" where
  "delete_class sv body st =
     (case get_supabase sv st of
        (Inl e, st1) \<Rightarrow>
          (Inl (HTTPException 500 (''Could not delete class events: '' @ exn_str e)), st1)
      | (Inr u, st1) \<Rightarrow>
          (case db_delete sv (del_user_id body) (del_course_name body) of
             Inl e \<Rightarrow>
               (Inl (HTTPException 500 (''Could not delete class events: '' @ exn_str e)),
                log (Delete (del_user_id body) (del_course_name body)) st1)
           | Inr u \<Rightarrow>
               (Inr \<lparr>status = ''ok''\<rparr>,
                log (Delete (del_user_id body) (del_course_name body)) st1)))"


section \<open>The inputs the properties speak of\<close>

text \<open>
  The \<open>course\<close> field of an object is usable when \<open>.strip()\<close> can be called on
  \<open>data.get("course") or ""\<close>: the field is absent, falsy, or a string.
\<close>

definition course_is_text :: "(string \<times> json) list \<Rightarrow> bool" where
  "course_is_text d = (case dict_get d ''course'' of JStr s \<Rightarrow> True | v \<Rightarrow> \<not> truthy v)"

text \<open>
  A JSON text begins, after blanks, with the first character of a value: a brace, a
  bracket, a quotation mark, a minus sign, a digit, or the first letter of \<open>true\<close>, \<open>false\<close>,
  \<open>null\<close>, \<open>NaN\<close> or \<open>Infinity\<close>.
\<close>

definition json_start :: "string \<Rightarrow> bool" where
  "json_start j =
     (case strip j of
        [] \<Rightarrow> False
      | c # r \<Rightarrow> c \<in> set (CHR 0x22 # ''{[-0123456789tfnNI''))"

text \<open>
  The alternate ways of writing the date (year, month, day): the English month names, a
  month or day number in two digits or, below ten, in one, and the four forms
  \<open>03/15/2025\<close>, \<open>March 15, 2025\<close>, \<open>Mar 15, 2025\<close> and \<open>15 March 2025\<close>.
\<close>

definition month_name :: "nat \<Rightarrow> string" where
  "month_name m =
     [''January'', ''February'', ''March'', ''April'', ''May'', ''June'', ''July'', ''August'',
      ''September'', ''October'', ''November'', ''December''] ! (m - 1)"

definition month_abbr :: "nat \<Rightarrow> string" where
  "month_abbr m = take 3 (month_name m)"

definition spelled :: "nat \<Rightarrow> string \<Rightarrow> bool" where
  "spelled n t = (t = zpad2 n \<or> (n < 10 \<and> t = [digit_char n]))"

definition us_slash_form :: "string \<Rightarrow> string \<Rightarrow> nat \<Rightarrow> string" where
  "us_slash_form ms ds y = ms @ ''/'' @ ds @ ''/'' @ zpad4 y"

definition long_form :: "nat \<Rightarrow> string \<Rightarrow> nat \<Rightarrow> string" where
  "long_form m ds y = month_name m @ '' '' @ ds @ '', '' @ zpad4 y"

definition abbr_form :: "nat \<Rightarrow> string \<Rightarrow> nat \<Rightarrow> string" where
  "abbr_form m ds y = month_abbr m @ '' '' @ ds @ '', '' @ zpad4 y"

definition day_first_form :: "string \<Rightarrow> nat \<Rightarrow> nat \<Rightarrow> string" where
  "day_first_form ds m y = ds @ '' '' @ month_name m @ '' '' @ zpad4 y"

text \<open>A reply that wraps \<open>j\<close> in a fenced block: fence, tag, blanks, \<open>j\<close>, blanks, fence.\<close>

definition fenced :: "string \<Rightarrow> string \<Rightarrow> string \<Rightarrow> string \<Rightarrow> string" where
  "fenced tag w1 j w2 = ''```'' @ tag @ w1 @ j @ w2 @ ''```''"


section \<open>A model of the JSON decoder\<close>

text \<open>
  \<open>json.loads\<close> belongs to the standard library, not to the program; the properties of
  the program below hold for any decoder.  To run the program on concrete replies, the
  decoder is modelled after the library's scanner: the JSON grammar with the constants
  \<open>NaN\<close>, \<open>Infinity\<close> and \<open>-Infinity\<close>, the blanks space, TAB, LF and CR, and the library's
  messages with line, column and offset.  An escape \<open>\uXXXX\<close> beyond code point 255 lies
  outside the strings modelled here and is reported as such.  The conversion of a number
  with a fraction or an exponent is the argument \<open>parse_float\<close>, as in the library.  The
  fuel bounds the nesting; the length of the text is always enough.
\<close>

definition json_ws :: "char \<Rightarrow> bool" where
  "json_ws c = (c = CHR '' '' \<or> c = CHR 0x09 \<or> c = CHR 0x0A \<or> c = CHR 0x0D)"

definition skip_ws :: "string \<Rightarrow> string" where
  "skip_ws s = dropWhile json_ws s"

definition nat_of_digits :: "string \<Rightarrow> nat" where
  "nat_of_digits ds = foldl (\<lambda>a c. 10 * a + digit_val c) 0 ds"

fun show_nat :: "nat \<Rightarrow> string" where
  "show_nat n = (if n < 10 then [digit_char n] else show_nat (n div 10) @ [digit_char n])"

declare show_nat.simps [simp del]

text \<open>\<open>JSONDecodeError(msg, doc, pos)\<close> as \<open>str\<close> shows it.\<close>

definition errmsg :: "string \<Rightarrow> string \<Rightarrow> nat \<Rightarrow> string" where
  "errmsg msg doc pos =
     (let pre = take pos doc;
          lineno = length (filter (\<lambda>c. c = CHR 0x0A) pre) + 1;
          colno = length (takeWhile (\<lambda>c. c \<noteq> CHR 0x0A) (rev pre)) + 1
      in msg @ '': line '' @ show_nat lineno @ '' column '' @ show_nat colno @
         '' (char '' @ show_nat pos @ '')'')"

definition hex_val :: "char \<Rightarrow> nat option" where
  "hex_val c =
     map_of (zip ''0123456789abcdefABCDEF''
               [0, 1, 2, 3, 4, 5, 6, 7, 8, 9, 10, 11, 12, 13, 14, 15, 10, 11, 12, 13, 14, 15]) c"

definition backslash :: "char \<Rightarrow> char option" where
  "backslash e =
     map_of [(CHR 0x22, CHR 0x22), (CHR 0x5C, CHR 0x5C), (CHR ''/'', CHR ''/''),
             (CHR ''b'', CHR 0x08), (CHR ''f'', CHR 0x0C), (CHR ''n'', CHR 0x0A),
             (CHR ''r'', CHR 0x0D), (CHR ''t'', CHR 0x09)] e"

text \<open>The messages that contain a backslash or a quotation mark.\<close>

definition invalid_uXXXX :: string where
  "invalid_uXXXX = ''Invalid '' @ [CHR 0x5C] @ ''uXXXX escape''"

definition invalid_escape :: string where
  "invalid_escape = ''Invalid '' @ [CHR 0x5C] @ ''escape''"

definition expecting_comma :: string where
  "expecting_comma = ''Expecting '' @ [CHR 0x27] @ '','' @ [CHR 0x27] @ '' delimiter''"

definition expecting_colon :: string where
  "expecting_colon = ''Expecting '' @ [CHR 0x27] @ '':'' @ [CHR 0x27] @ '' delimiter''"

text \<open>
  The body of a string, after its opening quote.  \<open>b\<close> is the text from that quote, where
  an unterminated string is reported; an error carries the text from its position.
\<close>

fun scanstring :: "string \<Rightarrow> string \<Rightarrow> string \<Rightarrow> (string \<times> string) + (string \<times> string)" where
  "scanstring b acc [] = Inl (''Unterminated string starting at'', b)"
| "scanstring b acc (c # r) =
     (if c = CHR 0x22 then Inr (rev acc, r)
      else if c = CHR 0x5C then
        (case r of
           [] \<Rightarrow> Inl (''Unterminated string starting at'', b)
         | e # r' \<Rightarrow>
             if e = CHR ''u'' then
               (case r' of
                  h1 # h2 # h3 # h4 # x # r'' \<Rightarrow>
                    (case (hex_val h1, hex_val h2, hex_val h3, hex_val h4) of
                       (Some a1, Some a2, Some a3, Some a4) \<Rightarrow>
                         if 4096 * a1 + 256 * a2 + 16 * a3 + a4 < 256
                         then scanstring b (char_of (16 * a3 + a4) # acc) (x # r'')
                         else Inl (''code point outside the modelled strings at'', c # r)
                     | _ \<Rightarrow> Inl (invalid_uXXXX, e # r'))
                | _ \<Rightarrow> Inl (invalid_uXXXX, e # r'))
             else
               (case backslash e of
                  Some ch \<Rightarrow> scanstring b (ch # acc) r'
                | None \<Rightarrow> Inl (invalid_escape, c # r)))
      else if (of_char c :: nat) < 32 then Inl (''Invalid control character at'', c # r)
      else scanstring b (c # acc) r)"

text \<open>
  The number at the start of a text: \<open>(-?(?:0|[1-9]\d*))(\.\d+)?([eE][-+]?\d+)?\<close>.
  The three groups and the text left, or \<open>None\<close> when the integer part is missing.
\<close>

definition match_integer :: "string \<Rightarrow> (string \<times> string) option" where
  "match_integer s =
     (let (sign, r) = (case s of c # r \<Rightarrow> if c = CHR ''-'' then (''-'', r) else ([], s) | [] \<Rightarrow> ([], s))
      in case r of
           [] \<Rightarrow> None
         | d # r' \<Rightarrow>
             if d = CHR ''0'' then Some (sign @ [d], r')
             else if isdigit d then Some (sign @ d # takeWhile isdigit r', dropWhile isdigit r')
             else None)"

definition match_frac :: "string \<Rightarrow> string \<times> string" where
  "match_frac s =
     (case s of
        c # d # r \<Rightarrow>
          if c = CHR ''.'' \<and> isdigit d
          then (c # d # takeWhile isdigit r, dropWhile isdigit r) else ([], s)
      | _ \<Rightarrow> ([], s))"

definition match_exp :: "string \<Rightarrow> string \<times> string" where
  "match_exp s =
     (case s of
        e # r \<Rightarrow>
          if e = CHR ''e'' \<or> e = CHR ''E'' then
            (let (sign, r') = (case r of
                                 c # t \<Rightarrow> if c = CHR ''-'' \<or> c = CHR ''+'' then ([c], t) else ([], r)
                               | [] \<Rightarrow> ([], r))
             in if takeWhile isdigit r' = [] then ([], s)
                else (e # sign @ takeWhile isdigit r', dropWhile isdigit r'))
          else ([], s)
      | [] \<Rightarrow> ([], s))"

definition int_of_lexeme :: "string \<Rightarrow> int" where
  "int_of_lexeme l =
     (case l of
        c # r \<Rightarrow> if c = CHR ''-'' then - int (nat_of_digits r) else int (nat_of_digits l)
      | [] \<Rightarrow> 0)"

definition match_number :: "(string \<Rightarrow> pyfloat) \<Rightarrow> string \<Rightarrow> (json \<times> string) option" where
  "match_number parse_float s =
     (case match_integer s of
        None \<Rightarrow> None
      | Some (integer, r) \<Rightarrow>
          (let (frac, r1) = match_frac r;
               (ex, r2) = match_exp r1
           in if frac \<noteq> [] \<or> ex \<noteq> [] then Some (JFloat (parse_float (integer @ frac @ ex)), r2)
              else Some (JInt (int_of_lexeme integer), r2)))"

text \<open>\<open>dict\<close> assignment: a key that is bound already keeps its place and takes the value.\<close>

fun dict_set :: "(string \<times> json) list \<Rightarrow> string \<Rightarrow> json \<Rightarrow> (string \<times> json) list" where
  "dict_set [] k v = [(k, v)]"
| "dict_set ((k', v') # d) k v = (if k' = k then (k, v) # d else (k', v') # dict_set d k v)"

text \<open>
  \<open>scan_once\<close> reads one value; \<open>scan_items\<close> and \<open>scan_pairs\<close> are the loops of the array
  and of the object, entered at an element and at a key.
\<close>

fun scan_once :: "(string \<Rightarrow> pyfloat) \<Rightarrow> nat \<Rightarrow> string \<Rightarrow> (string \<times> string) + (json \<times> string)"
  and scan_items ::
    "(string \<Rightarrow> pyfloat) \<Rightarrow> nat \<Rightarrow> json list \<Rightarrow> string \<Rightarrow> (string \<times> string) + (json \<times> string)"
  and scan_pairs ::
    "(string \<Rightarrow> pyfloat) \<Rightarrow> nat \<Rightarrow> (string \<times> json) list \<Rightarrow> string \<Rightarrow>
       (string \<times> string) + (json \<times> string)"
where
  "scan_once pf 0 s = Inl (''maximum recursion depth exceeded'', s)"
| "scan_once pf (Suc n) s =
     (case s of
        [] \<Rightarrow> Inl (''Expecting value'', s)
      | c # r \<Rightarrow>
          if c = CHR 0x22 then
            (case scanstring s [] r of Inl e \<Rightarrow> Inl e | Inr (str, rest) \<Rightarrow> Inr (JStr str, rest))
          else if c = CHR ''{'' then
            (case skip_ws r of
               [] \<Rightarrow> Inl (''Expecting property name enclosed in double quotes'', [])
             | x # t \<Rightarrow> if x = CHR ''}'' then Inr (JDict [], t) else scan_pairs pf n [] (x # t))
          else if c = CHR ''['' then
            (case skip_ws r of
               [] \<Rightarrow> Inl (''Expecting value'', [])
             | x # t \<Rightarrow> if x = CHR '']'' then Inr (JList [], t) else scan_items pf n [] (x # t))
          else if startswith s ''null'' then Inr (JNull, drop 4 s)
          else if startswith s ''true'' then Inr (JBool True, drop 4 s)
          else if startswith s ''false'' then Inr (JBool False, drop 5 s)
          else if startswith s ''NaN'' then Inr (JFloat NaN, drop 3 s)
          else if startswith s ''Infinity'' then Inr (JFloat PosInf, drop 8 s)
          else if startswith s ''-Infinity'' then Inr (JFloat NegInf, drop 9 s)
          else (case match_number pf s of
                  Some res \<Rightarrow> Inr res
                | None \<Rightarrow> Inl (''Expecting value'', s)))"
| "scan_items pf 0 acc s = Inl (''maximum recursion depth exceeded'', s)"
| "scan_items pf (Suc n) acc s =
     (case scan_once pf n s of
        Inl e \<Rightarrow> Inl e
      | Inr (v, r) \<Rightarrow>
          (case skip_ws r of
             [] \<Rightarrow> Inl (expecting_comma, [])
           | x # t \<Rightarrow>
               if x = CHR '']'' then Inr (JList (acc @ [v]), t)
               else if x = CHR '','' then scan_items pf n (acc @ [v]) (skip_ws t)
               else Inl (expecting_comma, x # t)))"
| "scan_pairs pf 0 acc s = Inl (''maximum recursion depth exceeded'', s)"
| "scan_pairs pf (Suc n) acc s =
     (case s of
        [] \<Rightarrow> Inl (''Expecting property name enclosed in double quotes'', s)
      | q # r \<Rightarrow>
          if q \<noteq> CHR 0x22 then Inl (''Expecting property name enclosed in double quotes'', s)
          else
            (case scanstring s [] r of
               Inl e \<Rightarrow> Inl e
             | Inr (key, r1) \<Rightarrow>
                 (case skip_ws r1 of
                    [] \<Rightarrow> Inl (expecting_colon, [])
                  | colon # r2 \<Rightarrow>
                      if colon \<noteq> CHR '':'' then Inl (expecting_colon, colon # r2)
                      else
                        (case scan_once pf n (skip_ws r2) of
                           Inl e \<Rightarrow> Inl e
                         | Inr (v, r3) \<Rightarrow>
                             (case skip_ws r3 of
                                [] \<Rightarrow> Inl (expecting_comma, [])
                              | x # t \<Rightarrow>
                                  if x = CHR ''}'' then Inr (JDict (dict_set acc key v), t)
                                  else if x = CHR '','' then
                                    scan_pairs pf n (dict_set acc key v) (skip_ws t)
                                  else Inl (expecting_comma, x # t))))))"

definition json_loads_model :: "(string \<Rightarrow> pyfloat) \<Rightarrow> string \<Rightarrow> string + json" where
  "json_loads_model parse_float doc =
     (case scan_once parse_float (Suc (length doc)) (skip_ws doc) of
        Inl (msg, rest) \<Rightarrow> Inl (errmsg msg doc (length doc - length rest))
      | Inr (v, rest) \<Rightarrow>
          if skip_ws rest \<noteq> [] then Inl (errmsg ''Extra data'' doc (length doc - length (skip_ws rest)))
          else Inr v)"


section \<open>A concrete environment\<close>

text \<open>
  Services under which the program can be run on a given reply of the model: the fetch
  returns a document, the PDF has one page of text, the decoder is the model above with
  numbers of type \<open>float\<close> read exactly, and the database accepts every operation.
\<close>

definition float_exact :: "string \<Rightarrow> pyfloat" where
  "float_exact l =
     (let neg = startswith l ''-'';
          l1 = (if neg then drop 1 l else l);
          ip = takeWhile isdigit l1;
          l2 = dropWhile isdigit l1;
          fp = (if startswith l2 ''.'' then takeWhile isdigit (drop 1 l2) else []);
          l3 = (if startswith l2 ''.'' then dropWhile isdigit (drop 1 l2) else l2);
          eneg = startswith (drop 1 l3) ''-'';
          ed = nat_of_digits (filter isdigit l3);
          m = real (nat_of_digits (ip @ fp)) / 10 ^ length fp;
          v = (if eneg then m / 10 ^ ed else m * 10 ^ ed)
      in Finite (if neg then - v else v))"

definition example_services :: "string option \<Rightarrow> services" where
  "example_services reply =
     \<lparr>http_get = (\<lambda>url. Inr ''%PDF-1.4''),
      pdf_pages = (\<lambda>bytes. Inr [''CS 161 Syllabus'']),
      generate_content = (\<lambda>p. Inr reply),
      json_loads = json_loads_model float_exact,
      py_repr = (\<lambda>v. py_type_name v),
      now = (2026, 11, 3),
      SUPABASE_URL = ''https://db.example'',
      SUPABASE_SERVICE_KEY = ''key'',
      create_client = (\<lambda>url key. Inr ()),
      db_insert = (\<lambda>rows. Inr ()),
      db_delete = (\<lambda>u c. Inr ())\<rparr>"

definition example_request :: ProcessSyllabusRequest where
  "example_request =
     \<lparr>file_url = ''https://files.example/syllabus.pdf'', user_id = Some ''u1'',
      source_filename = None, course_name = None\<rparr>"

definition initial_state :: state where
  "initial_state = \<lparr>supabase = False, calls = []\<rparr>"


text \<open>
  A reply in the canonical shape with two events, the second without a date that parses,
  and the response to it when the caller names the course \<open>MATH 1\<close>.
\<close>

definition scenario_reply :: string where
  \<open>scenario_reply =
     ''{"course":"CS 161","events":[{"title":"HW1","date":"2025-09-01","type":"Assignment"},'' @
     ''{"title":"Midterm","date":"TBD"}]}''\<close>

definition scenario_events :: "json list" where
  "scenario_events =
     [JDict [(''title'', JStr ''HW1''), (''date'', JStr ''2025-09-01''),
             (''type'', JStr ''Assignment'')],
      JDict [(''title'', JStr ''Midterm''), (''date'', JStr ''TBD'')]]"

definition scenario_request :: ProcessSyllabusRequest where
  "scenario_request = example_request\<lparr>course_name := Some '' MATH 1 ''\<rparr>"

definition scenario_response :: ProcessSyllabusResponse where
  "scenario_response =
     \<lparr>events =
        [\<lparr>row_user_id = Some ''u1'', row_source_filename = ''syllabus.pdf'',
          source_url = ''https://files.example/syllabus.pdf'',
          row_course_name = ''MATH 1'', event_date = ''2025-09-01'',
          event_title = JStr ''HW1'', event_description = Some ''Type: Assignment''\<rparr>,
         \<lparr>row_user_id = Some ''u1'', row_source_filename = ''syllabus.pdf'',
          source_url = ''https://files.example/syllabus.pdf'',
          row_course_name = ''MATH 1'', event_date = ''2026-11-03'',
          event_title = JStr ''Midterm'', event_description = None\<rparr>],
      count = 2, resp_course_name = ''MATH 1''\<rparr>"


text \<open>Replies in each of the shapes, one with a number for a course, and a line feed.\<close>

definition list_reply :: string where
  \<open>list_reply = ''[{"title":"Quiz 1","date":"03/15/2025"}]''\<close>

definition single_event_reply :: string where
  \<open>single_event_reply = ''{"events":{"title":"Quiz 1"}}''\<close>

definition scalar_events_reply :: string where
  \<open>scalar_events_reply = ''{"course":"CS 161","events":5}''\<close>

definition numeric_course_reply :: string where
  \<open>numeric_course_reply = ''{"course":1,"events":{"title":"Quiz 1"}}''\<close>

definition nl :: string where
  "nl = ''\<newline>''"


section \<open>Properties of the string primitives\<close>

lemma isdigit_not_isspace: "isdigit c \<Longrightarrow> \<not> isspace c"
  by (auto simp: isdigit_def isspace_def Let_def)

lemma canonical_no_space: "canonical s \<Longrightarrow> \<forall>c \<in> set s. \<not> isspace c"
  unfolding canonical_def
  by (auto split: list.splits dest: isdigit_not_isspace simp: isspace_def)

lemma strip_no_space: "\<forall>c \<in> set s. \<not> isspace c \<Longrightarrow> strip s = s"
proof -
  assume h: "\<forall>c \<in> set s. \<not> isspace c"
  then have l: "dropWhile isspace s = s"
    by (cases s) auto
  from h have "\<forall>c \<in> set (rev s). \<not> isspace c"
    by simp
  then have "dropWhile isspace (rev s) = rev s"
    by (cases "rev s") auto
  with l show ?thesis
    by (simp add: strip_def lstrip_def rstrip_def)
qed

lemma canonical_nonempty: "canonical s \<Longrightarrow> s \<noteq> []"
  by (auto simp: canonical_def)


section \<open>Properties of the Date Normalizer\<close>

text \<open>
  C5.  A date string already in the canonical form, four digits, a hyphen, two digits, a
  hyphen, two digits, is returned unchanged by the Date Normalizer, whatever the clock
  shows; the normalizer is therefore the identity on canonical inputs.
\<close>

theorem parse_event_date_canonical_identity:
  "canonical s \<Longrightarrow> parse_event_date repr today (JStr s) = s"
  by (simp add: parse_event_date_def py_str_def match_canonical_def
      strip_no_space [OF canonical_no_space] canonical_nonempty)

theorem parse_event_date_canonical_identity_witness:
  "canonical ''2025-03-15'' \<and> parse_event_date (\<lambda>v. []) (2026, 11, 3) (JStr ''2025-03-15'') = ''2025-03-15''"
  using parse_event_date_canonical_identity [of "''2025-03-15''" "\<lambda>v. []" "(2026, 11, 3)"]
  by (simp add: canonical_def isdigit_def)


section \<open>Properties of the Event Extraction Client and of the Request Handler\<close>

lemma extract_result:
  "generate_content sv (prompt text) = Inr reply \<Longrightarrow>
   extract_course_and_events_with_gemini sv text st =
     (parse_reply sv reply, log (Generate (prompt text)) st)"
  by (simp add: extract_course_and_events_with_gemini_def)

lemma example_url: "strip (file_url example_request) = ''https://files.example/syllabus.pdf''"
  by code_simp

lemma example_fetch:
  "http_get (example_services reply) (strip (file_url example_request)) = Inr ''%PDF-1.4''"
  by (simp add: example_services_def)

lemma example_text:
  "extract_text_from_pdf_bytes (example_services reply) ''%PDF-1.4'' = Inr ''CS 161 Syllabus''"
proof -
  have "strip (''CS 161 Syllabus'' @ ''\<newline>'') = ''CS 161 Syllabus''"
    by code_simp
  then show ?thesis
    by (simp add: extract_text_from_pdf_bytes_def example_services_def)
qed

lemma example_generate:
  "generate_content (example_services reply) (prompt ''CS 161 Syllabus'') = Inr reply"
  by (simp add: example_services_def)



text \<open>
  C8.  When the fetch returns a body of length zero, the request fails with the status 400
  and the detail \<open>PDF file is empty\<close>; the only call made is the fetch, so the model is
  not called and the database is not touched.
\<close>

theorem process_syllabus_empty_body:
  assumes "http_get sv (strip (file_url body)) = Inr []"
  shows "process_syllabus sv body st =
           (Inl (HTTPException 400 ''PDF file is empty''), log (Fetch (strip (file_url body))) st)
         \<and> calls (snd (process_syllabus sv body st)) = calls st @ [Fetch (strip (file_url body))]"
  using assms
  by (simp add: process_syllabus_def process_syllabus_impl_def Let_def log_def)

theorem process_syllabus_empty_body_witness:
  "http_get ((example_services None)\<lparr>http_get := (\<lambda>url. Inr [])\<rparr>) (strip (file_url example_request)) = Inr []
   \<and> fst (process_syllabus ((example_services None)\<lparr>http_get := (\<lambda>url. Inr [])\<rparr>) example_request initial_state)
       = Inl (HTTPException 400 ''PDF file is empty'')"
  using process_syllabus_empty_body
    [of "(example_services None)\<lparr>http_get := (\<lambda>url. Inr [])\<rparr>" example_request initial_state]
  by (simp add: example_services_def)

text \<open>
  C9.  \<open>delete_class\<close> answers with the status \<open>ok\<close> exactly when the client is available
  and the delete on the store returns without raising, whatever rows the store holds for
  the pair of user and course; in every other case it fails with the status 500.
\<close>

theorem delete_class_outcome:
  "(fst (delete_class sv body st) = Inr \<lparr>status = ''ok''\<rparr>) =
     (fst (get_supabase sv st) = Inr () \<and>
      db_delete sv (del_user_id body) (del_course_name body) = Inr ())
   \<and> (fst (delete_class sv body st) = Inr \<lparr>status = ''ok''\<rparr> \<or>
       (\<exists>e. fst (delete_class sv body st) =
          Inl (HTTPException 500 (''Could not delete class events: '' @ exn_str e))))"
  by (auto simp: delete_class_def split: prod.splits sum.splits)

theorem delete_class_outcome_witness:
  "fst (get_supabase (example_services None) initial_state) = Inr ()
   \<and> db_delete (example_services None) ''u1'' ''CS 161'' = Inr ()
   \<and> fst (delete_class (example_services None)
            \<lparr>del_user_id = ''u1'', del_course_name = ''CS 161''\<rparr> initial_state)
       = Inr \<lparr>status = ''ok''\<rparr>"
  using delete_class_outcome
    [of "example_services None" "\<lparr>del_user_id = ''u1'', del_course_name = ''CS 161''\<rparr>" initial_state]
  by (simp add: example_services_def initial_state_def get_supabase_def)

text \<open>
  C10.  When the reply decodes to a JSON value that is neither a list nor an object, the
  Event Extraction Client raises nothing and returns no course and no events; the request
  then succeeds with no rows and the count 0, and its calls are the fetch, the PDF read
  and the model call only.
\<close>

theorem non_container_reply_succeeds_empty:
  assumes "http_get sv (strip (file_url body)) = Inr bytes" and "bytes \<noteq> []"
    and "extract_text_from_pdf_bytes sv bytes = Inr text" and "text \<noteq> []"
    and "generate_content sv (prompt text) = Inr reply"
    and "json_loads sv (clean_reply reply) = Inr v"
    and "\<forall>xs. v \<noteq> JList xs" and "\<forall>d. v \<noteq> JDict d"
  shows "parse_reply sv reply = Inr (None, [])
         \<and> (\<exists>c. fst (process_syllabus sv body st) =
               Inr \<lparr>events = [], count = 0, resp_course_name = c\<rparr>)
         \<and> calls (snd (process_syllabus sv body st)) =
             calls st @ [Fetch (strip (file_url body)), ReadPdf bytes, Generate (prompt text)]"
proof -
  from assms(6-8) have p: "parse_reply sv reply = Inr (None, [])"
    by (cases v) (simp_all add: parse_reply_def shape_reply_def)
  with assms(1-5) show ?thesis
    by (simp add: process_syllabus_def process_syllabus_impl_def Let_def extract_result log_def)
qed

theorem non_container_reply_succeeds_empty_witness:
  "json_loads (example_services (Some ''42'')) (clean_reply (Some ''42'')) = Inr (JInt 42)
   \<and> parse_reply (example_services (Some ''42'')) (Some ''42'') = Inr (None, [])
   \<and> (\<exists>c. fst (process_syllabus (example_services (Some ''42'')) example_request initial_state) =
         Inr \<lparr>events = [], count = 0, resp_course_name = c\<rparr>)"
proof -
  let ?sv = "example_services (Some ''42'')"
  have h2: "''%PDF-1.4'' \<noteq> []" by simp
  have h4: "''CS 161 Syllabus'' \<noteq> []" by simp
  have h6: "json_loads ?sv (clean_reply (Some ''42'')) = Inr (JInt 42)"
    by code_simp
  have h7: "\<forall>xs. JInt 42 \<noteq> JList xs" and h8: "\<forall>d. JInt 42 \<noteq> JDict d" by simp_all
  from non_container_reply_succeeds_empty
         [OF example_fetch h2 example_text h4 example_generate h6 h7 h8, of initial_state] h6
  show ?thesis by simp
qed


section \<open>Properties of a successful request\<close>


lemma digit_cases:
  "(n::nat) mod 10 = 0 \<or> n mod 10 = 1 \<or> n mod 10 = 2 \<or> n mod 10 = 3 \<or> n mod 10 = 4 \<or>
   n mod 10 = 5 \<or> n mod 10 = 6 \<or> n mod 10 = 7 \<or> n mod 10 = 8 \<or> n mod 10 = 9"
  by presburger

lemma digit_val_digit_char: "digit_val (digit_char n) = n mod 10"
  using digit_cases [of n] by (elim disjE) (simp_all add: digit_val_def digit_char_def)







lemma shape_reply_course: "shape_reply data = Inr (Some c, evs) \<Longrightarrow> c \<noteq> []"
  by (auto simp: shape_reply_def split: json.splits if_splits)

lemma parse_reply_course: "parse_reply sv reply = Inr (Some c, evs) \<Longrightarrow> c \<noteq> []"
  by (auto simp: parse_reply_def split: sum.splits dest: shape_reply_course)

lemma make_rows_course:
  "make_rows sv uid fname url cname evs = Inr rows \<Longrightarrow>
   \<forall>row \<in> set rows. row_course_name row = cname"
  by (induction evs arbitrary: rows) (auto simp: make_row_def Let_def split: json.splits sum.splits)



lemma process_syllabus_success:
  assumes "fst (process_syllabus sv body st) = Inr resp"
    and "http_get sv (strip (file_url body)) = Inr bytes"
    and "extract_text_from_pdf_bytes sv bytes = Inr text"
    and "generate_content sv (prompt text) = Inr reply"
    and "parse_reply sv reply = Inr (course_from_ai, evs)"
  shows "make_rows sv
            (case user_id body of None \<Rightarrow> None | Some u \<Rightarrow> if u = [] then None else Some (strip u))
            (strip (case source_filename body of
                      None \<Rightarrow> ''syllabus.pdf''
                    | Some f \<Rightarrow> if f = [] then ''syllabus.pdf'' else f))
            (strip (file_url body)) (resolved_course body course_from_ai) evs
           = Inr (events resp)
         \<and> resp_course_name resp = resolved_course body course_from_ai
         \<and> count resp = length (events resp)"
proof -
  from assms(1) have "process_syllabus sv body st = (Inr resp, snd (process_syllabus sv body st))"
    by (metis prod.collapse)
  with assms(2-5) show ?thesis
  by (auto simp: process_syllabus_def process_syllabus_impl_def Let_def extract_result
      resolved_course_def split: if_splits sum.splits prod.splits failure.splits pyexn.splits)
qed

lemma resolved_course_nonempty:
  "parse_reply sv reply = Inr (course_from_ai, evs) \<Longrightarrow> resolved_course body course_from_ai \<noteq> []"
  by (cases course_from_ai) (auto simp: resolved_course_def dest: parse_reply_course)

text \<open>
  C7.  On a successful request the course name of the response is the caller's override
  after trimming when that is not empty, else the course derived from the model's reply
  when there is one, else the literal \<open>Unnamed course\<close>.  It is never empty, and every row
  of the response carries it; an override that is not blank therefore always wins over
  the model's course.
\<close>

theorem course_name_resolution:
  assumes "fst (process_syllabus sv body st) = Inr resp"
    and "http_get sv (strip (file_url body)) = Inr bytes"
    and "extract_text_from_pdf_bytes sv bytes = Inr text"
    and "generate_content sv (prompt text) = Inr reply"
    and "parse_reply sv reply = Inr (course_from_ai, evs)"
  shows "resp_course_name resp =
           (if strip (case course_name body of None \<Rightarrow> [] | Some c \<Rightarrow> c) \<noteq> []
            then strip (case course_name body of None \<Rightarrow> [] | Some c \<Rightarrow> c)
            else case course_from_ai of Some c \<Rightarrow> c | None \<Rightarrow> ''Unnamed course'')
         \<and> resp_course_name resp \<noteq> []
         \<and> (\<forall>row \<in> set (events resp). row_course_name row = resp_course_name resp)"
proof -
  note s = process_syllabus_success [OF assms]
  from s have r: "resp_course_name resp = resolved_course body course_from_ai" by simp
  from s make_rows_course have
    "\<forall>row \<in> set (events resp). row_course_name row = resolved_course body course_from_ai"
    by blast
  with r resolved_course_nonempty [OF assms(5), of body] show ?thesis
    by (simp add: resolved_course_def)
qed




lemma scenario_run:
  "fst (process_syllabus (example_services (Some scenario_reply)) scenario_request initial_state)
     = Inr scenario_response"
  by code_simp

lemma scenario_fetch:
  "http_get (example_services reply) (strip (file_url scenario_request)) = Inr ''%PDF-1.4''"
  by (simp add: example_services_def)

lemma scenario_parse:
  "parse_reply (example_services (Some scenario_reply)) (Some scenario_reply)
     = Inr (Some ''CS 161'', scenario_events)"
  by code_simp

theorem course_name_resolution_witness:
  "fst (process_syllabus (example_services (Some scenario_reply)) scenario_request initial_state)
     = Inr scenario_response
   \<and> parse_reply (example_services (Some scenario_reply)) (Some scenario_reply)
       = Inr (Some ''CS 161'', scenario_events)
   \<and> resp_course_name scenario_response = ''MATH 1''
   \<and> list_all (\<lambda>row. row_course_name row = ''MATH 1'') (events scenario_response)"
proof -
  have t: "strip (case course_name scenario_request of None \<Rightarrow> [] | Some c \<Rightarrow> c) = ''MATH 1''"
    by code_simp
  from course_name_resolution
         [OF scenario_run scenario_fetch example_text example_generate scenario_parse]
       t scenario_run scenario_parse
  show ?thesis by (simp add: list_all_iff)
qed




section \<open>Properties of the reply parser\<close>


text \<open>
  C3 (amended).  A reply that decodes to a bare list gives no course and the list itself
  as the events.  A reply that decodes to an object whose \<open>course\<close> field is absent,
  falsy or a string gives, when its \<open>events\<close> field is a single object, the one-element
  list with that object, and when its \<open>events\<close> field is neither a list nor an object
  (absent included), the empty list.
\<close>

theorem accepted_reply_shapes:
  "(json_loads sv (clean_reply reply) = Inr (JList xs) \<longrightarrow> parse_reply sv reply = Inr (None, xs))
   \<and> (json_loads sv (clean_reply reply) = Inr (JDict d) \<and> course_is_text d \<and>
        dict_get d ''events'' = JDict ev \<longrightarrow>
        (\<exists>c. parse_reply sv reply = Inr (c, [JDict ev])))
   \<and> (json_loads sv (clean_reply reply) = Inr (JDict d) \<and> course_is_text d \<and>
        (\<forall>evs. dict_get d ''events'' \<noteq> JList evs) \<and> (\<forall>ev. dict_get d ''events'' \<noteq> JDict ev) \<longrightarrow>
        (\<exists>c. parse_reply sv reply = Inr (c, [])))"
  by (auto simp: parse_reply_def shape_reply_def course_is_text_def py_or_def
      split: json.splits)

lemma startswith_json: "startswith s ''json'' \<Longrightarrow> s \<noteq> [] \<and> hd s = CHR ''j''"
  by (cases s) (auto simp: startswith_def)

lemma startswith_fence: "startswith s ''```'' \<Longrightarrow> s \<noteq> [] \<and> hd s = CHR ''`''"
  by (cases s) (auto simp: startswith_def)

lemma rstrip_decomp: "s = rstrip s @ rev (takeWhile isspace (rev s))"
proof -
  have "rev (dropWhile isspace (rev s)) @ rev (takeWhile isspace (rev s)) =
        rev (takeWhile isspace (rev s) @ dropWhile isspace (rev s))"
    by (simp only: rev_append)
  also have "\<dots> = rev (rev s)"
    by (simp only: takeWhile_dropWhile_id)
  finally show ?thesis by (simp add: rstrip_def)
qed

lemma no_fence_inside:
  assumes "t \<noteq> []" and "\<not> isspace (last t)"
  shows "\<not> fence_to_end (t @ W @ ''```'')"
proof
  assume f: "fence_to_end (t @ W @ ''```'')"
  define r where "r = dropWhile isspace (t @ W @ ''```'')"
  from f have e: "dropWhile isspace (drop 3 r) = []"
    unfolding fence_to_end_def Let_def r_def by (rule conjunct2)
  from assms have m: "last t \<in> set t \<and> \<not> isspace (last t)" by simp
  then have d: "r = dropWhile isspace t @ W @ ''```''"
    unfolding r_def by (metis dropWhile_append1)
  from m have u: "dropWhile isspace t \<noteq> []"
    by (metis dropWhile_eq_Nil_conv)
  from u d have l: "3 < length r" by (cases "dropWhile isspace t") simp_all
  then have ne: "drop 3 r \<noteq> []" by simp
  from l have "last (drop 3 r) = last r" by simp
  also from d have "last r = CHR ''`''" by simp
  finally have "\<not> isspace (last (drop 3 r))" by (simp add: isspace_def)
  moreover from ne have "last (drop 3 r) \<in> set (drop 3 r)" by (rule last_in_set)
  ultimately have "dropWhile isspace (drop 3 r) \<noteq> []"
    by (metis dropWhile_eq_Nil_conv)
  with e show False by contradiction
qed

lemma fence_at_end:
  assumes "\<forall>c \<in> set W. isspace c"
  shows "fence_to_end (W @ ''```'')"
proof -
  from assms have "dropWhile isspace (W @ ''```'') = dropWhile isspace ''```''"
    by (simp add: dropWhile_append2)
  then show ?thesis by (simp add: fence_to_end_def startswith_def isspace_def)
qed

lemma sub_trailing_fence_strips:
  assumes "\<forall>c \<in> set W. isspace c"
  shows "t = [] \<or> \<not> isspace (last t) \<Longrightarrow> sub_trailing_fence (t @ W @ ''```'') = t"
proof (induction t)
  case Nil
  from fence_at_end [OF assms] show ?case
    by (cases "W @ ''```''") simp_all
next
  case (Cons c t)
  then have n: "\<not> isspace (last (c # t))" by simp
  have "\<not> fence_to_end ((c # t) @ W @ ''```'')"
    by (rule no_fence_inside [OF _ n]) simp
  moreover from Cons have "sub_trailing_fence (t @ W @ ''```'') = t"
    by (cases t) auto
  ultimately show ?case by simp
qed

lemma json_start_strip: "json_start j \<Longrightarrow> strip j \<noteq> [] \<and> hd (strip j) \<noteq> CHR ''`'' \<and> hd (strip j) \<noteq> CHR ''j''"
  by (auto simp: json_start_def split: list.splits)

lemma strip_nonempty_lstrip: "strip j \<noteq> [] \<Longrightarrow> lstrip j \<noteq> [] \<and> hd (lstrip j) = hd (strip j)"
proof -
  assume a: "strip j \<noteq> []"
  have "lstrip j = strip j @ rev (takeWhile isspace (rev (lstrip j)))"
    using rstrip_decomp [of "lstrip j"] by (simp add: strip_def)
  with a show ?thesis by (metis append_is_Nil_conv hd_append2)
qed

lemma clean_reply_bare:
  assumes "json_start j"
  shows "clean_reply (Some j) = strip j"
proof -
  from json_start_strip [OF assms] startswith_fence [of "strip j"]
  have "\<not> startswith (strip j) ''```''" by auto
  then show ?thesis by (simp add: clean_reply_def)
qed

lemma clean_reply_fenced:
  assumes "tag = [] \<or> tag = ''json''"
    and w1: "\<forall>c \<in> set w1. isspace c" and w2: "\<forall>c \<in> set w2. isspace c"
    and j: "json_start j"
  shows "clean_reply (Some (fenced tag w1 j w2)) = strip j"
proof -
  let ?F = "''```''"
  note js = json_start_strip [OF j]
  note ls = strip_nonempty_lstrip [of j]
  from js ls have lne: "lstrip j \<noteq> []" and hl: "hd (lstrip j) = hd (strip j)" by simp_all
  have s: "strip (fenced tag w1 j w2) = fenced tag w1 j w2"
    by (simp add: fenced_def strip_def lstrip_def rstrip_def isspace_def)
  have sw: "startswith (fenced tag w1 j w2) ?F"
    by (simp add: fenced_def startswith_def)
  have nj: "\<not> startswith (w1 @ j @ w2 @ ?F) ''json''"
  proof
    assume a: "startswith (w1 @ j @ w2 @ ?F) ''json''"
    show False
    proof (cases w1)
      case Nil
      from lne have jne: "j \<noteq> []" by (auto simp: lstrip_def)
      with a Nil startswith_json [of "j @ w2 @ ?F"] have h: "hd j = CHR ''j''" by simp
      then have "\<not> isspace (hd j)" by (simp add: isspace_def)
      with jne have "lstrip j = j" by (cases j) (simp_all add: lstrip_def)
      with h hl js show False by simp
    next
      case (Cons c cs)
      with a startswith_json [of "w1 @ j @ w2 @ ?F"] have "c = CHR ''j''" by simp
      moreover from Cons w1 have "isspace c" by simp
      ultimately show False by (simp add: isspace_def)
    qed
  qed
  have dw: "dropWhile isspace (w1 @ j @ w2 @ ?F) = lstrip j @ w2 @ ?F"
  proof -
    from w1 have "dropWhile isspace (w1 @ j @ w2 @ ?F) = dropWhile isspace (j @ w2 @ ?F)"
      by (simp add: dropWhile_append2)
    moreover from lne have "\<exists>x \<in> set j. \<not> isspace x"
      by (auto simp: lstrip_def dropWhile_eq_Nil_conv)
    then have "dropWhile isspace (j @ w2 @ ?F) = dropWhile isspace j @ w2 @ ?F"
      by (metis dropWhile_append1)
    ultimately show ?thesis by (simp add: lstrip_def)
  qed
  have lead: "sub_leading_fence (fenced tag w1 j w2) = lstrip j @ w2 @ ?F"
    using assms(1) nj dw
    by (auto simp: sub_leading_fence_def fenced_def Let_def startswith_def)
  define tw where "tw = rev (takeWhile isspace (rev (lstrip j)))"
  have dec: "lstrip j = strip j @ tw"
    using rstrip_decomp [of "lstrip j"] by (simp add: strip_def tw_def)
  have tws: "\<forall>c \<in> set (tw @ w2). isspace c"
    using w2 by (auto simp: tw_def dest: set_takeWhileD)
  have sl: "\<not> isspace (last (strip j))"
    using js hd_dropWhile [of isspace "rev (lstrip j)"]
    by (simp add: strip_def rstrip_def last_rev)
  have "sub_trailing_fence (strip j @ (tw @ w2) @ ?F) = strip j"
    by (rule sub_trailing_fence_strips [OF tws]) (simp add: sl)
  with dec lead have "sub_trailing_fence (sub_leading_fence (fenced tag w1 j w2)) = strip j"
    by simp
  with s sw show ?thesis by (simp add: clean_reply_def)
qed

text \<open>
  C2 (amended).  For a text \<open>j\<close> that begins as a JSON text does, a reply that wraps \<open>j\<close>
  in a fenced block, with no tag or with the tag \<open>json\<close> on the opening fence, blanks
  between the fences and \<open>j\<close>, and the closing fence at the end, is parsed with the same
  result as \<open>j\<close> alone: the same course and events, or the same error.
\<close>

theorem fenced_reply_parses_as_bare:
  assumes "tag = [] \<or> tag = ''json''"
    and "\<forall>c \<in> set w1. isspace c" and "\<forall>c \<in> set w2. isspace c"
    and "json_start j"
  shows "parse_reply sv (Some (fenced tag w1 j w2)) = parse_reply sv (Some j)"
  unfolding parse_reply_def clean_reply_fenced [OF assms] clean_reply_bare [OF assms(4)]
  by (rule refl)



section \<open>The reply parser on concrete replies\<close>


theorem accepted_reply_shapes_witness:
  "json_loads (example_services None) (clean_reply (Some list_reply)) =
     Inr (JList [JDict [(''title'', JStr ''Quiz 1''), (''date'', JStr ''03/15/2025'')]])
   \<and> parse_reply (example_services None) (Some list_reply) =
       Inr (None, [JDict [(''title'', JStr ''Quiz 1''), (''date'', JStr ''03/15/2025'')]])
   \<and> json_loads (example_services None) (clean_reply (Some single_event_reply)) =
       Inr (JDict [(''events'', JDict [(''title'', JStr ''Quiz 1'')])])
   \<and> course_is_text [(''events'', JDict [(''title'', JStr ''Quiz 1'')])]
   \<and> (\<exists>c. parse_reply (example_services None) (Some single_event_reply) =
         Inr (c, [JDict [(''title'', JStr ''Quiz 1'')]]))
   \<and> json_loads (example_services None) (clean_reply (Some scalar_events_reply)) =
       Inr (JDict [(''course'', JStr ''CS 161''), (''events'', JInt 5)])
   \<and> course_is_text [(''course'', JStr ''CS 161''), (''events'', JInt 5)]
   \<and> (\<exists>c. parse_reply (example_services None) (Some scalar_events_reply) = Inr (c, []))"
proof -
  let ?sv = "example_services None"
  have a: "json_loads ?sv (clean_reply (Some list_reply)) =
     Inr (JList [JDict [(''title'', JStr ''Quiz 1''), (''date'', JStr ''03/15/2025'')]])"
    by code_simp
  have b: "json_loads ?sv (clean_reply (Some single_event_reply)) =
       Inr (JDict [(''events'', JDict [(''title'', JStr ''Quiz 1'')])])"
    by code_simp
  have b1: "course_is_text [(''events'', JDict [(''title'', JStr ''Quiz 1'')])]"
    by code_simp
  have b2: "dict_get [(''events'', JDict [(''title'', JStr ''Quiz 1'')])] ''events'' =
              JDict [(''title'', JStr ''Quiz 1'')]"
    by code_simp
  have c: "json_loads ?sv (clean_reply (Some scalar_events_reply)) =
       Inr (JDict [(''course'', JStr ''CS 161''), (''events'', JInt 5)])"
    by code_simp
  have c1: "course_is_text [(''course'', JStr ''CS 161''), (''events'', JInt 5)]"
    by code_simp
  have c2: "dict_get [(''course'', JStr ''CS 161''), (''events'', JInt 5)] ''events'' = JInt 5"
    by code_simp
  from accepted_reply_shapes [of ?sv "Some list_reply"
          "[JDict [(''title'', JStr ''Quiz 1''), (''date'', JStr ''03/15/2025'')]]"] a
  have 1: "parse_reply ?sv (Some list_reply) =
       Inr (None, [JDict [(''title'', JStr ''Quiz 1''), (''date'', JStr ''03/15/2025'')]])"
    by simp
  from accepted_reply_shapes [of ?sv "Some single_event_reply" _
          "[(''events'', JDict [(''title'', JStr ''Quiz 1'')])]" "[(''title'', JStr ''Quiz 1'')]"]
       b b1 b2
  have 2: "\<exists>c. parse_reply ?sv (Some single_event_reply) =
         Inr (c, [JDict [(''title'', JStr ''Quiz 1'')]])"
    by simp
  from accepted_reply_shapes [of ?sv "Some scalar_events_reply" _
          "[(''course'', JStr ''CS 161''), (''events'', JInt 5)]"] c c1 c2
  have 3: "\<exists>c. parse_reply ?sv (Some scalar_events_reply) = Inr (c, [])"
    by simp
  from a b b1 c c1 1 2 3 show ?thesis by simp
qed

theorem accepted_reply_shapes_counterexample:
  "json_loads (example_services None) (clean_reply (Some numeric_course_reply)) =
     Inr (JDict [(''course'', JInt 1), (''events'', JDict [(''title'', JStr ''Quiz 1'')])])
   \<and> dict_get [(''course'', JInt 1), (''events'', JDict [(''title'', JStr ''Quiz 1'')])] ''events''
       = JDict [(''title'', JStr ''Quiz 1'')]
   \<and> parse_reply (example_services None) (Some numeric_course_reply) =
       Inl (no_attribute (JInt 1) ''strip'')"
  by code_simp

theorem fenced_reply_parses_as_bare_witness:
  "list_all isspace nl \<and> json_start scenario_reply
   \<and> parse_reply (example_services None) (Some (fenced ''json'' nl scenario_reply nl)) =
       Inr (Some ''CS 161'', scenario_events)
   \<and> parse_reply (example_services None) (Some (fenced [] nl scenario_reply nl)) =
       Inr (Some ''CS 161'', scenario_events)"
proof -
  have w: "\<forall>c \<in> set nl. isspace c" by (simp add: nl_def isspace_def)
  have j: "json_start scenario_reply" by code_simp
  have p: "parse_reply (example_services None) (Some scenario_reply) =
             Inr (Some ''CS 161'', scenario_events)"
    by code_simp
  have t1: "''json'' = [] \<or> ''json'' = ''json''" by simp
  have t2: "([]::string) = [] \<or> [] = ''json''" by simp
  from fenced_reply_parses_as_bare [OF t1 w w j, of "example_services None"]
       fenced_reply_parses_as_bare [OF t2 w w j, of "example_services None"] p w j
  show ?thesis by (simp add: list_all_iff)
qed

theorem fenced_reply_parses_as_bare_counterexample:
  "parse_reply (example_services None) (Some (fenced ''python'' nl ''[]'' nl)) =
     Inl (ValueError (''Gemini did not return valid JSON: Expecting value: line 1 column 1 (char 0)'' @
            nl @ ''Raw: python'' @ nl @ ''[]''))
   \<and> parse_reply (example_services None) (Some ''[]'') = Inr (None, [])"
  by code_simp


end
